theory Spec2Isabelle
  imports Main
begin

section \<open>Style-generation teachers of ParlAI (parlai/tasks/style\_gen/agents.py)\<close>

subsection \<open>Python values, errors and the primitives the file uses\<close>

text \<open>
  The fields of a message and of an option dictionary are dynamically typed. The
  values that can reach the code of this file are strings, booleans, integers,
  \<open>None\<close> and lists of such values. None of them is updated in place by the
  file (only whole fields of a message are replaced), so they are modelled as
  immutable values; the message objects themselves live in a store (below).
\<close>

datatype pyval =
    VStr string
  | VBool bool
  | VInt int
  | VNone
  | VList "pyval list"

datatype error =
    ValueError
  | AssertionError
  | KeyError string
  | TypeError
  | AttributeError
  | IndexError
  | BuildError string

text \<open>The newline character, the separator between the utterances of a text.\<close>

abbreviation nl :: char where
  "nl \<equiv> CHR 0x0A"

text \<open>\<^verbatim>\<open>len(x)\<close>: defined on strings and lists, a TypeError elsewhere.\<close>

fun py_len :: "pyval \<Rightarrow> error + nat" where
  "py_len (VStr s) = Inr (length s)"
| "py_len (VList xs) = Inr (length xs)"
| "py_len _ = Inl TypeError"

text \<open>\<^verbatim>\<open>x[0]\<close>: the first element of a list, the first character (a string of length
  one) of a string, an IndexError when there is none, a TypeError elsewhere.\<close>

fun py_getitem0 :: "pyval \<Rightarrow> error + pyval" where
  "py_getitem0 (VList []) = Inl IndexError"
| "py_getitem0 (VList (x # xs)) = Inr x"
| "py_getitem0 (VStr []) = Inl IndexError"
| "py_getitem0 (VStr (c # cs)) = Inr (VStr [c])"
| "py_getitem0 _ = Inl TypeError"

text \<open>\<^verbatim>\<open>'\n' in x\<close>: substring test on a string, membership test on a list, a
  TypeError on a value that is not iterable.\<close>

fun py_newline_in :: "pyval \<Rightarrow> error + bool" where
  "py_newline_in (VStr s) = Inr (nl \<in> set s)"
| "py_newline_in (VList xs) = Inr (VStr [nl] \<in> set xs)"
| "py_newline_in _ = Inl TypeError"

text \<open>\<^verbatim>\<open>s.split(c)\<close> for a separator of one character: the pieces between the
  occurrences of \<open>c\<close>, in order; never an empty list.\<close>

fun py_split :: "char \<Rightarrow> string \<Rightarrow> string list" where
  "py_split c [] = [[]]"
| "py_split c (x # xs) =
     (if x = c then [] # py_split c xs
      else (x # hd (py_split c xs)) # tl (py_split c xs))"

text \<open>\<^verbatim>\<open>x.split(c)\<close> on an arbitrary value: only strings have the method.\<close>

fun py_split_method :: "pyval \<Rightarrow> char \<Rightarrow> error + string list" where
  "py_split_method (VStr s) c = Inr (py_split c s)"
| "py_split_method _ c = Inl AttributeError"

text \<open>\<^verbatim>\<open>s + x\<close> for a string \<open>s\<close>: concatenation when \<open>x\<close> is a string, a TypeError
  otherwise.\<close>

fun py_str_add :: "string \<Rightarrow> pyval \<Rightarrow> error + string" where
  "py_str_add s (VStr t) = Inr (s @ t)"
| "py_str_add s _ = Inl TypeError"

subsection \<open>Messages and the object store\<close>

text \<open>
  A message (a turn) is a dictionary from field names to values. Messages are
  objects: the teacher holds references to them, and \<^verbatim>\<open>copy.deepcopy\<close> makes a
  new object. The store is the list of all message objects; a reference is an
  index into it, and a new object is appended at the end.
\<close>

type_synonym message = "string \<rightharpoonup> pyval"
type_synonym addr = nat
type_synonym heap = "message list"

text \<open>\<^verbatim>\<open>m[k]\<close>: the value under the key, a KeyError when the key is absent.\<close>

definition getitem :: "message \<Rightarrow> string \<Rightarrow> error + pyval" where
  "getitem m k = (case m k of None \<Rightarrow> Inl (KeyError k) | Some v \<Rightarrow> Inr v)"

text \<open>Modelled from the spec: the class \<^verbatim>\<open>Message\<close> is not part of this file. A
  turn is a mapping with optional fields, and \<^verbatim>\<open>force_set\<close> stores a value under
  a key of the message object, replacing the value that was there.\<close>

definition force_set :: "addr \<Rightarrow> string \<Rightarrow> pyval \<Rightarrow> heap \<Rightarrow> heap" where
  "force_set a k v h = h[a := (h ! a)(k \<mapsto> v)]"

text \<open>\<^verbatim>\<open>copy.deepcopy(a)\<close>: a new object with the fields of the old one.\<close>

definition deepcopy :: "addr \<Rightarrow> heap \<Rightarrow> addr \<times> heap" where
  "deepcopy a h = (length h, h @ [h ! a])"

subsection \<open>PrevCurrUttStyleTeacher.act\<close>

text \<open>
  The state of a run: the object store and the state of the inner teacher
  \<^verbatim>\<open>self.task\<close> (its position in the data).
\<close>

record 'ts world =
  heap :: heap
  task :: 'ts

text \<open>
  Lines 125 to 129: the labels must have length one (a ValueError otherwise) and
  the label must not contain a newline (an assertion). The result is the label
  \<^verbatim>\<open>labels[0]\<close>.
\<close>

definition check_labels :: "pyval \<Rightarrow> error + pyval" where
  "check_labels labels =
     (case py_len labels of
        Inl e \<Rightarrow> Inl e
      | Inr n \<Rightarrow>
          if n \<noteq> 1 then Inl ValueError
          else
            (case py_getitem0 labels of
               Inl e \<Rightarrow> Inl e
             | Inr label0 \<Rightarrow>
                 (case py_newline_in label0 of
                    Inl e \<Rightarrow> Inl e
                  | Inr b \<Rightarrow> if b then Inl AssertionError else Inr label0)))"

text \<open>
  Line 132, the expression \<^verbatim>\<open>new_act['text'].split('\n')[-1] + '\n' + labels[0]\<close>,
  evaluated from left to right on the fields of the copy. The index \<^verbatim>\<open>[-1]\<close> is the
  last piece (an IndexError on an empty list, which \<^verbatim>\<open>split\<close> never returns).
\<close>

definition new_text :: "message \<Rightarrow> pyval \<Rightarrow> error + string" where
  "new_text m label0 =
     (case getitem m ''text'' of
        Inl e \<Rightarrow> Inl e
      | Inr text \<Rightarrow>
          (case py_split_method text nl of
             Inl e \<Rightarrow> Inl e
           | Inr pieces \<Rightarrow>
               if pieces = [] then Inl IndexError
               else py_str_add (last pieces @ [nl]) label0))"

text \<open>
  The field rewriting of \<^verbatim>\<open>act\<close> (the statements between the fetch of the turn and
  the call of \<^verbatim>\<open>process_action\<close>): deep copy, the branch on \<^verbatim>\<open>'labels' in orig_act\<close>,
  and the forced \<^verbatim>\<open>episode_done\<close>. It returns the reference \<^verbatim>\<open>new_act\<close>, or the error
  raised, and in both cases the store as it is at that point.
\<close>

definition rewrite_fields :: "addr \<Rightarrow> heap \<Rightarrow> (error + addr) \<times> heap" where
  "rewrite_fields orig_act h0 =
     (let (new_act, h1) = deepcopy orig_act h0 in
      case (h1 ! orig_act) ''labels'' of
        Some labels \<Rightarrow>
          (case check_labels labels of
             Inl e \<Rightarrow> (Inl e, h1)
           | Inr label0 \<Rightarrow>
               (case new_text (h1 ! new_act) label0 of
                  Inl e \<Rightarrow> (Inl e, h1)
                | Inr t \<Rightarrow>
                    (let h2 = force_set new_act ''text'' (VStr t) h1 in
                     case getitem (h2 ! new_act) ''personality'' of
                       Inl e \<Rightarrow> (Inl e, h2)
                     | Inr personality \<Rightarrow>
                         (let h3 = force_set new_act ''labels'' (VList [personality]) h2
                          in (Inr new_act,
                              force_set new_act ''episode_done'' (VBool True) h3)))))
      | None \<Rightarrow>
          if (h1 ! orig_act) ''text'' \<noteq> None then (Inl AssertionError, h1)
          else
            (case getitem (h1 ! orig_act) ''episode_done'' of
               Inl e \<Rightarrow> (Inl e, h1)
             | Inr done \<Rightarrow>
                 if done \<noteq> VBool True then (Inl AssertionError, h1)
                 else (Inr new_act, force_set new_act ''episode_done'' (VBool True) h1)))"

text \<open>
  \<^verbatim>\<open>act\<close> itself. The two methods of the inner teacher, \<^verbatim>\<open>get_orig_action\<close> and
  \<^verbatim>\<open>process_action\<close>, are not part of this file and are parameters: each runs on
  the whole state and returns a reference to a message or raises. The source
  hands \<^verbatim>\<open>orig_act\<close> to \<^verbatim>\<open>process_action\<close> and returns its result.
\<close>

definition act ::
  "('ts world \<Rightarrow> (error + addr) \<times> 'ts world) \<Rightarrow>
   (addr \<Rightarrow> 'ts world \<Rightarrow> (error + addr) \<times> 'ts world) \<Rightarrow>
   'ts world \<Rightarrow> (error + addr) \<times> 'ts world" where
  "act get_orig_action process_action s =
     (case get_orig_action s of
        (Inl e, s1) \<Rightarrow> (Inl e, s1)
      | (Inr orig_act, s1) \<Rightarrow>
          (case rewrite_fields orig_act (heap s1) of
             (Inl e, h) \<Rightarrow> (Inl e, s1\<lparr>heap := h\<rparr>)
           | (Inr new_act, h) \<Rightarrow> process_action orig_act (s1\<lparr>heap := h\<rparr>)))"

subsection \<open>Paths of the labeled data files and the Labeled teachers\<close>

text \<open>An option dictionary (\<^verbatim>\<open>Opt\<close>) is a dictionary from option names to values.\<close>

type_synonym opt = "string \<rightharpoonup> pyval"

text \<open>
  \<^verbatim>\<open>os.path.join(a, *p)\<close> of the POSIX path module: a component that starts with
  a slash replaces what was joined so far; otherwise it is appended, after a
  slash unless the path so far is empty or already ends with one.
\<close>

definition join_step :: "string \<Rightarrow> string \<Rightarrow> string" where
  "join_step path b =
     (if b \<noteq> [] \<and> hd b = CHR ''/'' then b
      else if path = [] \<or> last path = CHR ''/'' then path @ b
      else path @ ''/'' @ b)"

definition os_path_join :: "string \<Rightarrow> string list \<Rightarrow> string" where
  "os_path_join a p = foldl join_step a p"

text \<open>
  \<^verbatim>\<open>get_style_labeled_data_path(opt, base_task)\<close>. The builder
  \<^verbatim>\<open>build_style_labeled_datasets\<close> and the function \<^verbatim>\<open>get_style_labeled_data_folder\<close>
  are imported from the build module, which is not part of this file; they are
  parameters. The builder reads the options and changes the file system (the
  state \<open>fs\<close>) or raises; the folder function maps the value of
  \<^verbatim>\<open>opt['datapath']\<close> to a path or raises. The function returns the path and the
  file system after the build.
\<close>

definition get_style_labeled_data_path ::
  "(opt \<Rightarrow> 'fs \<Rightarrow> error + 'fs) \<Rightarrow> (pyval \<Rightarrow> error + string) \<Rightarrow>
   opt \<Rightarrow> string \<Rightarrow> 'fs \<Rightarrow> error + (string \<times> 'fs)" where
  "get_style_labeled_data_path build_style_labeled_datasets get_style_labeled_data_folder
       opt base_task fs =
     (case build_style_labeled_datasets opt fs of
        Inl e \<Rightarrow> Inl e
      | Inr fs' \<Rightarrow>
          (case getitem opt ''datatype'' of
             Inl e \<Rightarrow> Inl e
           | Inr datatype \<Rightarrow>
               (case py_split_method datatype CHR '':'' of
                  Inl e \<Rightarrow> Inl e
                | Inr [] \<Rightarrow> Inl IndexError
                | Inr (dt # rest) \<Rightarrow>
                    (case getitem opt ''datapath'' of
                       Inl e \<Rightarrow> Inl e
                     | Inr datapath \<Rightarrow>
                         (case get_style_labeled_data_folder datapath of
                            Inl e \<Rightarrow> Inl e
                          | Inr folder \<Rightarrow>
                              Inr (os_path_join folder [base_task, dt @ ''.txt''], fs'))))))"

text \<open>
  The constructors of the four Labeled teachers. Each stores the path of its
  base task under \<^verbatim>\<open>'parlaidialogteacher_datafile'\<close> in the caller's options and
  then calls the constructor of \<^verbatim>\<open>ParlAIDialogTeacher\<close>, which is not part of this
  file and is the parameter \<open>super_init\<close>.

  The options are an object that the caller, the constructor and the reader
  share, and the assignment \<^verbatim>\<open>opt[...] = ...\<close> changes that object. So the options
  are state: a constructor returns, next to its result or error, the caller's
  options as they are when it ends. The reader's constructor is handed the same
  object; it receives the options as they are at the call (with the argument
  \<^verbatim>\<open>shared\<close> and the file system) and returns them as it leaves them. When the path
  cannot be computed, the assignment does not happen and the options are as
  they were.
\<close>

definition LabeledBlendedSkillTalkTeacher_init ::
  "(opt \<Rightarrow> 'fs \<Rightarrow> error + 'fs) \<Rightarrow> (pyval \<Rightarrow> error + string) \<Rightarrow>
   (opt \<Rightarrow> 'sh \<Rightarrow> 'fs \<Rightarrow> (error + 'r) \<times> opt) \<Rightarrow>
   opt \<Rightarrow> 'sh \<Rightarrow> 'fs \<Rightarrow> (error + 'r) \<times> opt" where
  "LabeledBlendedSkillTalkTeacher_init build folder super_init opt shared fs =
     (case get_style_labeled_data_path build folder opt ''blended_skill_talk'' fs of
        Inl e \<Rightarrow> (Inl e, opt)
      | Inr (path, fs') \<Rightarrow>
          super_init (opt(''parlaidialogteacher_datafile'' \<mapsto> VStr path)) shared fs')"

definition LabeledConvAI2PersonaTopicifierTeacher_init ::
  "(opt \<Rightarrow> 'fs \<Rightarrow> error + 'fs) \<Rightarrow> (pyval \<Rightarrow> error + string) \<Rightarrow>
   (opt \<Rightarrow> 'sh \<Rightarrow> 'fs \<Rightarrow> (error + 'r) \<times> opt) \<Rightarrow>
   opt \<Rightarrow> 'sh \<Rightarrow> 'fs \<Rightarrow> (error + 'r) \<times> opt" where
  "LabeledConvAI2PersonaTopicifierTeacher_init build folder super_init opt shared fs =
     (case get_style_labeled_data_path build folder opt
             ''blended_skill_talk:ConvAI2PersonaTopicifierTeacher'' fs of
        Inl e \<Rightarrow> (Inl e, opt)
      | Inr (path, fs') \<Rightarrow>
          super_init (opt(''parlaidialogteacher_datafile'' \<mapsto> VStr path)) shared fs')"

definition LabeledEDPersonaTopicifierTeacher_init ::
  "(opt \<Rightarrow> 'fs \<Rightarrow> error + 'fs) \<Rightarrow> (pyval \<Rightarrow> error + string) \<Rightarrow>
   (opt \<Rightarrow> 'sh \<Rightarrow> 'fs \<Rightarrow> (error + 'r) \<times> opt) \<Rightarrow>
   opt \<Rightarrow> 'sh \<Rightarrow> 'fs \<Rightarrow> (error + 'r) \<times> opt" where
  "LabeledEDPersonaTopicifierTeacher_init build folder super_init opt shared fs =
     (case get_style_labeled_data_path build folder opt
             ''blended_skill_talk:EDPersonaTopicifierTeacher'' fs of
        Inl e \<Rightarrow> (Inl e, opt)
      | Inr (path, fs') \<Rightarrow>
          super_init (opt(''parlaidialogteacher_datafile'' \<mapsto> VStr path)) shared fs')"

definition LabeledWoWPersonaTopicifierTeacher_init ::
  "(opt \<Rightarrow> 'fs \<Rightarrow> error + 'fs) \<Rightarrow> (pyval \<Rightarrow> error + string) \<Rightarrow>
   (opt \<Rightarrow> 'sh \<Rightarrow> 'fs \<Rightarrow> (error + 'r) \<times> opt) \<Rightarrow>
   opt \<Rightarrow> 'sh \<Rightarrow> 'fs \<Rightarrow> (error + 'r) \<times> opt" where
  "LabeledWoWPersonaTopicifierTeacher_init build folder super_init opt shared fs =
     (case get_style_labeled_data_path build folder opt
             ''blended_skill_talk:WoWPersonaTopicifierTeacher'' fs of
        Inl e \<Rightarrow> (Inl e, opt)
      | Inr (path, fs') \<Rightarrow>
          super_init (opt(''parlaidialogteacher_datafile'' \<mapsto> VStr path)) shared fs')"

subsection \<open>Example inputs\<close>

text \<open>
  An inner teacher whose \<^verbatim>\<open>get_orig_action\<close> returns the message at a given
  reference and whose \<^verbatim>\<open>process_action\<close> returns the action it is given, both
  without touching the state; and a store that holds one message.
\<close>

definition fetch_at :: "addr \<Rightarrow> unit world \<Rightarrow> (error + addr) \<times> unit world" where
  "fetch_at a s = (Inr a, s)"

definition pass_through :: "addr \<Rightarrow> unit world \<Rightarrow> (error + addr) \<times> unit world" where
  "pass_through a s = (Inr a, s)"

definition one_turn :: "message \<Rightarrow> unit world" where
  "one_turn m = \<lparr>heap = [m], task = ()\<rparr>"

text \<open>The labeled turn of the end-to-end example, and the same turn inside an
  episode that goes on.\<close>

definition example_turn :: message where
  "example_turn =
     [''text'' \<mapsto> VStr ''hi\<newline>how are you'',
      ''labels'' \<mapsto> VList [VStr ''good thanks''],
      ''personality'' \<mapsto> VStr ''cheerful'']"

definition open_turn :: message where
  "open_turn =
     [''text'' \<mapsto> VStr ''how are you'',
      ''labels'' \<mapsto> VList [VStr ''good thanks''],
      ''personality'' \<mapsto> VStr ''cheerful'',
      ''episode_done'' \<mapsto> VBool False]"

text \<open>Turns that the teacher rejects: two labels; a label with a newline in it;
  a label but no text; no label and no end-of-episode mark; no label but a text.\<close>

definition two_label_turn :: message where
  "two_label_turn =
     [''text'' \<mapsto> VStr ''hi'',
      ''labels'' \<mapsto> VList [VStr ''good'', VStr ''thanks''],
      ''personality'' \<mapsto> VStr ''cheerful'']"

definition newline_label_turn :: message where
  "newline_label_turn =
     [''text'' \<mapsto> VStr ''hi'',
      ''labels'' \<mapsto> VList [VStr ''good\<newline>thanks''],
      ''personality'' \<mapsto> VStr ''cheerful'']"

definition textless_turn :: message where
  "textless_turn =
     [''labels'' \<mapsto> VList [VStr ''good thanks''],
      ''personality'' \<mapsto> VStr ''cheerful'']"

definition bare_turn :: message where
  "bare_turn = [''personality'' \<mapsto> VStr ''cheerful'']"

definition text_only_turn :: message where
  "text_only_turn = [''text'' \<mapsto> VStr ''hi'', ''episode_done'' \<mapsto> VBool True]"

text \<open>The turn at the end of the data: only the end-of-episode mark and an
  identifier.\<close>

definition terminal_turn :: message where
  "terminal_turn = [''id'' \<mapsto> VStr ''style_gen'', ''episode_done'' \<mapsto> VBool True]"

text \<open>A builder that counts its runs, and a folder function in the shape of the
  build module's (a fixed folder below the data path).\<close>

definition count_build :: "opt \<Rightarrow> nat \<Rightarrow> error + nat" where
  "count_build opt fs = Inr (Suc fs)"

fun folder_below :: "pyval \<Rightarrow> error + string" where
  "folder_below (VStr datapath) = Inr (os_path_join datapath [''style_gen'', ''labeled_datasets''])"
| "folder_below _ = Inl TypeError"

text \<open>A reader constructor that records the data file and the datatype it is
  given and the file system it sees, and one that raises; both leave the
  options as they are.\<close>

definition reader_init ::
  "opt \<Rightarrow> unit \<Rightarrow> nat \<Rightarrow> (error + (pyval option \<times> pyval option \<times> nat)) \<times> opt" where
  "reader_init opt shared fs =
     (Inr (opt ''parlaidialogteacher_datafile'', opt ''datatype'', fs), opt)"

definition failing_reader_init ::
  "opt \<Rightarrow> unit \<Rightarrow> nat \<Rightarrow> (error + (pyval option \<times> pyval option \<times> nat)) \<times> opt" where
  "failing_reader_init opt shared fs = (Inl (BuildError ''no data file''), opt)"

definition example_opt :: opt where
  "example_opt = [''datatype'' \<mapsto> VStr ''train:stream'', ''datapath'' \<mapsto> VStr ''/data'']"

section \<open>Properties\<close>

subsection \<open>Splitting a string\<close>

lemma py_split_nonempty: "py_split c s \<noteq> []"
  by (induction s) auto

lemma hd_py_split: "hd (py_split c s) = takeWhile (\<lambda>x. x \<noteq> c) s"
  by (induction s) auto

lemma py_split_first:
  "\<exists>rest. py_split c s = takeWhile (\<lambda>x. x \<noteq> c) s # rest"
  using py_split_nonempty[of c s] hd_py_split[of c s] by (cases "py_split c s") auto

lemma length_py_split: "length (py_split c s) = Suc (length (filter (\<lambda>x. x = c) s))"
  by (induction s) (auto simp: py_split_nonempty)

lemma py_split_no_sep: "c \<notin> set s \<Longrightarrow> py_split c s = [s]"
  by (induction s) auto

lemma last_py_split_after: "c \<notin> set b \<Longrightarrow> last (py_split c (a @ c # b)) = b"
proof (induction a)
  case Nil
  then show ?case by (simp add: py_split_no_sep)
next
  case (Cons x a)
  let ?r = "py_split c (a @ c # b)"
  have "2 \<le> length ?r" by (simp add: length_py_split)
  then have tl_ne: "tl ?r \<noteq> []" by (cases ?r) auto
  then have "last (tl ?r) = last ?r" by (simp add: last_tl)
  then show ?case using Cons tl_ne py_split_nonempty[of c "a @ c # b"] by simp
qed

text \<open>The last piece is what follows the last separator (the whole string when
  there is no separator).\<close>

lemma last_py_split: "last (py_split c s) = rev (takeWhile (\<lambda>x. x \<noteq> c) (rev s))"
proof (cases "c \<in> set s")
  case False
  then have tw: "takeWhile (\<lambda>x. x \<noteq> c) (rev s) = rev s"
    by (intro takeWhile_eq_all_conv[THEN iffD2]) auto
  show ?thesis by (simp add: py_split_no_sep[OF False] tw)
next
  case True
  then obtain a b where s: "s = a @ c # b" and b: "c \<notin> set b"
    by (auto dest: split_list_last)
  have "takeWhile (\<lambda>x. x \<noteq> c) (rev b @ c # rev a) = rev b"
    using b by (simp add: takeWhile_append)
  then show ?thesis using s b by (simp add: last_py_split_after)
qed

subsection \<open>The field rewriting, branch by branch\<close>

text \<open>Every object that was in the store before the rewriting is there
  unchanged after it, and the reference returned is the new object.\<close>

lemma rewrite_fields_frame: "take (length h) (snd (rewrite_fields a h)) = h"
  by (simp add: rewrite_fields_def deepcopy_def force_set_def Let_def
           split: option.splits sum.splits)

lemma rewrite_fields_ref:
  "fst (rewrite_fields a h) = Inr n \<Longrightarrow> n = length h"
  by (simp add: rewrite_fields_def deepcopy_def Let_def
           split: option.splits sum.splits if_splits)

lemma rewrite_fields_check_fails:
  assumes "a < length h" and "(h ! a) ''labels'' = Some labels"
    and "check_labels labels = Inl e"
  shows "rewrite_fields a h = (Inl e, h @ [h ! a])"
  using assms by (simp add: rewrite_fields_def deepcopy_def nth_append)

lemma rewrite_fields_text_fails:
  assumes "a < length h" and "(h ! a) ''labels'' = Some labels"
    and "check_labels labels = Inr label0"
    and "new_text (h ! a) label0 = Inl e"
  shows "rewrite_fields a h = (Inl e, h @ [h ! a])"
  using assms by (simp add: rewrite_fields_def deepcopy_def nth_append)

text \<open>The labeled branch on a well-formed turn: the copy gets the last line of
  the text, a newline and the label as its text, the personality as its only
  label, and the end-of-episode mark.\<close>

lemma rewrite_fields_labeled:
  assumes "a < length h"
    and "(h ! a) ''labels'' = Some (VList [VStr L])"
    and "nl \<notin> set L"
    and "(h ! a) ''text'' = Some (VStr T)"
    and "(h ! a) ''personality'' = Some P"
  shows "rewrite_fields a h =
           (Inr (length h),
            h @ [(h ! a)(''text'' \<mapsto> VStr (rev (takeWhile (\<lambda>x. x \<noteq> nl) (rev T)) @ [nl] @ L),
                         ''labels'' \<mapsto> VList [P],
                         ''episode_done'' \<mapsto> VBool True)])"
  using assms
  by (simp add: rewrite_fields_def check_labels_def new_text_def deepcopy_def force_set_def
        getitem_def nth_append py_split_nonempty last_py_split)

lemma rewrite_fields_unlabeled:
  assumes "a < length h" and "(h ! a) ''labels'' = None"
  shows "rewrite_fields a h =
           (if (h ! a) ''text'' \<noteq> None then (Inl AssertionError, h @ [h ! a])
            else case (h ! a) ''episode_done'' of
                   None \<Rightarrow> (Inl (KeyError ''episode_done''), h @ [h ! a])
                 | Some v \<Rightarrow>
                     if v \<noteq> VBool True then (Inl AssertionError, h @ [h ! a])
                     else (Inr (length h), h @ [h ! a]))"
proof -
  have same: "m ''episode_done'' = Some (VBool True) \<Longrightarrow> m(''episode_done'' \<mapsto> VBool True) = m"
    for m :: message
    by (rule map_upd_triv)
  show ?thesis
    using assms
    by (auto simp add: rewrite_fields_def deepcopy_def getitem_def force_set_def nth_append same
          split: option.splits)
qed

lemma act_rewrite_fails:
  assumes "get_orig_action s = (Inr a, s1)"
    and "rewrite_fields a (heap s1) = (Inl e, h)"
  shows "act get_orig_action process_action s = (Inl e, s1\<lparr>heap := h\<rparr>)"
  using assms by (simp add: act_def)

lemma act_rewrite_succeeds:
  assumes "get_orig_action s = (Inr a, s1)"
    and "rewrite_fields a (heap s1) = (Inr n, h)"
  shows "act get_orig_action process_action s = process_action a (s1\<lparr>heap := h\<rparr>)"
  using assms by (simp add: act_def)

text \<open>
  What \<^verbatim>\<open>act\<close> returns on a well-formed labeled turn, for every inner teacher: the
  result of \<^verbatim>\<open>process_action\<close> on the fetched turn, whose fields are as they were.
  The rewritten copy is the last object of the store, and no reference to it is
  handed on.
\<close>

lemma act_labeled_turn:
  assumes "get_orig_action s = (Inr a, s1)"
    and "a < length (heap s1)"
    and "(heap s1 ! a) ''labels'' = Some (VList [VStr L])"
    and "nl \<notin> set L"
    and "(heap s1 ! a) ''text'' = Some (VStr T)"
    and "(heap s1 ! a) ''personality'' = Some P"
  shows "act get_orig_action process_action s =
           process_action a
             (s1\<lparr>heap := heap s1 @
                [(heap s1 ! a)
                   (''text'' \<mapsto> VStr (rev (takeWhile (\<lambda>x. x \<noteq> nl) (rev T)) @ [nl] @ L),
                    ''labels'' \<mapsto> VList [P],
                    ''episode_done'' \<mapsto> VBool True)]\<rparr>)"
  using assms(1) rewrite_fields_labeled[OF assms(2-6)] by (rule act_rewrite_succeeds)


subsection \<open>The turn returned by act\<close>

text \<open>
  Claim C1. For a turn with exactly one label \<open>L\<close>, a text \<open>T\<close> and a personality
  \<open>P\<close>, the turn returned by \<^verbatim>\<open>act\<close> should have the text "last line of \<open>T\<close>,
  newline, \<open>L\<close>" and the labels \<open>[P]\<close>. The code computes exactly this on the
  copy \<^verbatim>\<open>new_act\<close>, but hands \<^verbatim>\<open>orig_act\<close> to \<^verbatim>\<open>process_action\<close> and returns that
  result. On the turn of the end-to-end example, with an inner teacher that
  passes the action through, the reference returned is the fetched turn (object
  0), whose text is still the two-line text and whose label is still the reply;
  the rewritten turn is object 1 of the store, which nothing refers to.
\<close>

theorem act_returns_fetched_text_and_labels:
  "act (fetch_at 0) pass_through (one_turn example_turn) =
     (Inr 0,
      \<lparr>heap = [example_turn,
               example_turn(''text'' \<mapsto> VStr ''how are you\<newline>good thanks'',
                            ''labels'' \<mapsto> VList [VStr ''cheerful''],
                            ''episode_done'' \<mapsto> VBool True)],
       task = ()\<rparr>)
   \<and> example_turn ''text'' = Some (VStr ''hi\<newline>how are you'')
   \<and> example_turn ''labels'' = Some (VList [VStr ''good thanks''])"
  by (simp add: act_def fetch_at_def pass_through_def one_turn_def rewrite_fields_def
        deepcopy_def check_labels_def new_text_def getitem_def force_set_def example_turn_def)

text \<open>
  Claim C2. The turn returned by \<^verbatim>\<open>act\<close> should have \<^verbatim>\<open>episode_done\<close> true whatever
  the input says. The mark is forced on the copy only. On a labeled turn whose
  \<^verbatim>\<open>episode_done\<close> is false, with an inner teacher that passes the action
  through, the turn returned (object 0) still has \<^verbatim>\<open>episode_done\<close> false.
\<close>

theorem act_returns_open_episode:
  "act (fetch_at 0) pass_through (one_turn open_turn) =
     (Inr 0,
      \<lparr>heap = [open_turn,
               open_turn(''text'' \<mapsto> VStr ''how are you\<newline>good thanks'',
                         ''labels'' \<mapsto> VList [VStr ''cheerful''],
                         ''episode_done'' \<mapsto> VBool True)],
       task = ()\<rparr>)
   \<and> open_turn ''episode_done'' = Some (VBool False)"
  by (simp add: act_def fetch_at_def pass_through_def one_turn_def rewrite_fields_def
        deepcopy_def check_labels_def new_text_def getitem_def force_set_def open_turn_def)

subsection \<open>Rejected turns\<close>

text \<open>
  Claim C3. When the fetched turn has a \<^verbatim>\<open>labels\<close> field whose length is not one
  (no label, or two or more), \<^verbatim>\<open>act\<close> raises ValueError. No turn is returned and
  \<^verbatim>\<open>process_action\<close> is not called: the final state is the state after the fetch,
  with the untouched copy added to the store.
\<close>

theorem act_rejects_label_count:
  assumes "get_orig_action s = (Inr a, s1)"
    and "a < length (heap s1)"
    and "(heap s1 ! a) ''labels'' = Some labels"
    and "py_len labels = Inr n"
    and "n \<noteq> 1"
  shows "act get_orig_action process_action s =
           (Inl ValueError, s1\<lparr>heap := heap s1 @ [heap s1 ! a]\<rparr>)"
proof -
  have "check_labels labels = Inl ValueError"
    using assms(4,5) by (simp add: check_labels_def)
  with assms(2,3)
  have "rewrite_fields a (heap s1) = (Inl ValueError, heap s1 @ [heap s1 ! a])"
    by (simp add: rewrite_fields_check_fails)
  with assms(1) show ?thesis by (simp add: act_rewrite_fails)
qed

theorem act_rejects_label_count_witness:
  "fetch_at 0 (one_turn two_label_turn) = (Inr 0, one_turn two_label_turn)
   \<and> 0 < length (heap (one_turn two_label_turn))
   \<and> (heap (one_turn two_label_turn) ! 0) ''labels'' = Some (VList [VStr ''good'', VStr ''thanks''])
   \<and> py_len (VList [VStr ''good'', VStr ''thanks'']) = Inr 2
   \<and> (2::nat) \<noteq> 1
   \<and> act (fetch_at 0) pass_through (one_turn two_label_turn) =
       (Inl ValueError, \<lparr>heap = [two_label_turn, two_label_turn], task = ()\<rparr>)"
proof -
  have h1: "fetch_at 0 (one_turn two_label_turn) = (Inr 0, one_turn two_label_turn)"
    by (simp add: fetch_at_def)
  have h2: "0 < length (heap (one_turn two_label_turn))"
    by (simp add: one_turn_def)
  have h3: "(heap (one_turn two_label_turn) ! 0) ''labels'' =
              Some (VList [VStr ''good'', VStr ''thanks''])"
    by (simp add: one_turn_def two_label_turn_def)
  have h4: "py_len (VList [VStr ''good'', VStr ''thanks'']) = Inr 2"
    by simp
  have h5: "(2::nat) \<noteq> 1"
    by simp
  have "act (fetch_at 0) pass_through (one_turn two_label_turn) =
          (Inl ValueError, \<lparr>heap = [two_label_turn, two_label_turn], task = ()\<rparr>)"
    using act_rejects_label_count[of "fetch_at 0" _ _ _ _ _ pass_through, OF h1 h2 h3 h4 h5]
    by (simp add: one_turn_def)
  with h1 h2 h3 h4 h5 show ?thesis by (intro conjI)
qed

text \<open>
  Claim C4, as stated, fails: a turn with no \<^verbatim>\<open>labels\<close>, no \<^verbatim>\<open>text\<close> and no
  \<^verbatim>\<open>episode_done\<close> field has an \<^verbatim>\<open>episode_done\<close> that is not true, and \<^verbatim>\<open>act\<close> raises
  KeyError on it (the lookup inside the assertion), not AssertionError.
\<close>

theorem act_missing_episode_done_is_key_error:
  "bare_turn ''labels'' = None
   \<and> bare_turn ''episode_done'' \<noteq> Some (VBool True)
   \<and> act (fetch_at 0) pass_through (one_turn bare_turn) =
       (Inl (KeyError ''episode_done''), \<lparr>heap = [bare_turn, bare_turn], task = ()\<rparr>)
   \<and> fst (act (fetch_at 0) pass_through (one_turn bare_turn)) \<noteq> Inl AssertionError"
  by (simp add: act_def fetch_at_def one_turn_def rewrite_fields_def deepcopy_def
        getitem_def bare_turn_def)

text \<open>
  Claim C4, amended. When the fetched turn has no \<^verbatim>\<open>labels\<close> field and either has
  a \<^verbatim>\<open>text\<close> field or has an \<^verbatim>\<open>episode_done\<close> that is not the value true, \<^verbatim>\<open>act\<close>
  fails and returns no turn: with AssertionError when \<^verbatim>\<open>text\<close> is present or
  \<^verbatim>\<open>episode_done\<close> is present with another value than true, with KeyError when
  \<^verbatim>\<open>text\<close> and \<^verbatim>\<open>episode_done\<close> are both absent.
\<close>

theorem act_unlabeled_turn_rejected:
  assumes "get_orig_action s = (Inr a, s1)"
    and "a < length (heap s1)"
    and "(heap s1 ! a) ''labels'' = None"
    and "(heap s1 ! a) ''text'' \<noteq> None \<or> (heap s1 ! a) ''episode_done'' \<noteq> Some (VBool True)"
  shows "act get_orig_action process_action s =
           (Inl (if (heap s1 ! a) ''text'' = None \<and> (heap s1 ! a) ''episode_done'' = None
                 then KeyError ''episode_done'' else AssertionError),
            s1\<lparr>heap := heap s1 @ [heap s1 ! a]\<rparr>)"
proof -
  have "rewrite_fields a (heap s1) =
          (Inl (if (heap s1 ! a) ''text'' = None \<and> (heap s1 ! a) ''episode_done'' = None
                 then KeyError ''episode_done'' else AssertionError),
           heap s1 @ [heap s1 ! a])"
    using assms(2-4) by (auto simp add: rewrite_fields_unlabeled split: option.splits)
  with assms(1) show ?thesis by (simp add: act_rewrite_fails)
qed

theorem act_unlabeled_turn_rejected_witness:
  "fetch_at 0 (one_turn text_only_turn) = (Inr 0, one_turn text_only_turn)
   \<and> 0 < length (heap (one_turn text_only_turn))
   \<and> (heap (one_turn text_only_turn) ! 0) ''labels'' = None
   \<and> (heap (one_turn text_only_turn) ! 0) ''text'' = Some (VStr ''hi'')
   \<and> act (fetch_at 0) pass_through (one_turn text_only_turn) =
       (Inl AssertionError, \<lparr>heap = [text_only_turn, text_only_turn], task = ()\<rparr>)"
proof -
  have h1: "fetch_at 0 (one_turn text_only_turn) = (Inr 0, one_turn text_only_turn)"
    by (simp add: fetch_at_def)
  have h2: "0 < length (heap (one_turn text_only_turn))"
    by (simp add: one_turn_def)
  have h3: "(heap (one_turn text_only_turn) ! 0) ''labels'' = None"
    by (simp add: one_turn_def text_only_turn_def)
  have h4: "(heap (one_turn text_only_turn) ! 0) ''text'' = Some (VStr ''hi'')"
    by (simp add: one_turn_def text_only_turn_def)
  then have h4': "(heap (one_turn text_only_turn) ! 0) ''text'' \<noteq> None
                  \<or> (heap (one_turn text_only_turn) ! 0) ''episode_done'' \<noteq> Some (VBool True)"
    by simp
  have "act (fetch_at 0) pass_through (one_turn text_only_turn) =
          (Inl AssertionError, \<lparr>heap = [text_only_turn, text_only_turn], task = ()\<rparr>)"
    using act_unlabeled_turn_rejected[of "fetch_at 0" _ _ _ pass_through, OF h1 h2 h3 h4'] h4
    by (simp add: one_turn_def)
  with h1 h2 h3 h4 show ?thesis by (intro conjI)
qed

text \<open>
  Claim C5. When the single label of the fetched turn contains a newline, \<^verbatim>\<open>act\<close>
  fails the assertion of line 129 and returns no turn.
\<close>

theorem act_rejects_newline_label:
  assumes "get_orig_action s = (Inr a, s1)"
    and "a < length (heap s1)"
    and "(heap s1 ! a) ''labels'' = Some (VList [VStr L])"
    and "nl \<in> set L"
  shows "act get_orig_action process_action s =
           (Inl AssertionError, s1\<lparr>heap := heap s1 @ [heap s1 ! a]\<rparr>)"
proof -
  have "check_labels (VList [VStr L]) = Inl AssertionError"
    using assms(4) by (simp add: check_labels_def)
  with assms(2,3)
  have "rewrite_fields a (heap s1) = (Inl AssertionError, heap s1 @ [heap s1 ! a])"
    by (simp add: rewrite_fields_check_fails)
  with assms(1) show ?thesis by (simp add: act_rewrite_fails)
qed

theorem act_rejects_newline_label_witness:
  "fetch_at 0 (one_turn newline_label_turn) = (Inr 0, one_turn newline_label_turn)
   \<and> 0 < length (heap (one_turn newline_label_turn))
   \<and> (heap (one_turn newline_label_turn) ! 0) ''labels'' = Some (VList [VStr ''good\<newline>thanks''])
   \<and> nl \<in> set ''good\<newline>thanks''
   \<and> act (fetch_at 0) pass_through (one_turn newline_label_turn) =
       (Inl AssertionError, \<lparr>heap = [newline_label_turn, newline_label_turn], task = ()\<rparr>)"
proof -
  have h1: "fetch_at 0 (one_turn newline_label_turn) = (Inr 0, one_turn newline_label_turn)"
    by (simp add: fetch_at_def)
  have h2: "0 < length (heap (one_turn newline_label_turn))"
    by (simp add: one_turn_def)
  have h3: "(heap (one_turn newline_label_turn) ! 0) ''labels'' =
              Some (VList [VStr ''good\<newline>thanks''])"
    by (simp add: one_turn_def newline_label_turn_def)
  have h4: "nl \<in> set ''good\<newline>thanks''"
    by simp
  have "act (fetch_at 0) pass_through (one_turn newline_label_turn) =
          (Inl AssertionError, \<lparr>heap = [newline_label_turn, newline_label_turn], task = ()\<rparr>)"
    using act_rejects_newline_label[of "fetch_at 0" _ _ _ _ pass_through, OF h1 h2 h3 h4]
    by (simp add: one_turn_def)
  with h1 h2 h3 h4 show ?thesis by (intro conjI)
qed

text \<open>
  Claim C10. When the fetched turn has a \<^verbatim>\<open>labels\<close> field with a single entry and
  no \<^verbatim>\<open>text\<close> field, \<^verbatim>\<open>act\<close> fails and returns no turn: a label that passes the
  newline check leads to the lookup \<^verbatim>\<open>new_act['text']\<close>, which raises KeyError; a
  label that does not pass it has already raised (the assertion, or the
  TypeError of a label that cannot be searched).
\<close>

theorem act_needs_text:
  assumes "get_orig_action s = (Inr a, s1)"
    and "a < length (heap s1)"
    and "(heap s1 ! a) ''labels'' = Some (VList [label0])"
    and "(heap s1 ! a) ''text'' = None"
  shows "act get_orig_action process_action s =
           (Inl (case py_newline_in label0 of
                   Inl e \<Rightarrow> e
                 | Inr b \<Rightarrow> if b then AssertionError else KeyError ''text''),
            s1\<lparr>heap := heap s1 @ [heap s1 ! a]\<rparr>)"
proof (cases "check_labels (VList [label0])")
  case (Inl e)
  then have "e = (case py_newline_in label0 of
                    Inl e \<Rightarrow> e
                  | Inr b \<Rightarrow> if b then AssertionError else KeyError ''text'')"
    by (auto simp add: check_labels_def split: sum.splits if_splits)
  moreover have "rewrite_fields a (heap s1) = (Inl e, heap s1 @ [heap s1 ! a])"
    using assms(2,3) Inl by (simp add: rewrite_fields_check_fails)
  ultimately show ?thesis using assms(1) by (simp add: act_rewrite_fails)
next
  case (Inr x)
  then have no_nl: "py_newline_in label0 = Inr False"
    by (auto simp add: check_labels_def split: sum.splits if_splits)
  have "new_text (heap s1 ! a) x = Inl (KeyError ''text'')"
    using assms(4) by (simp add: new_text_def getitem_def)
  with assms(2,3) Inr
  have "rewrite_fields a (heap s1) = (Inl (KeyError ''text''), heap s1 @ [heap s1 ! a])"
    by (simp add: rewrite_fields_text_fails)
  with assms(1) no_nl show ?thesis by (simp add: act_rewrite_fails)
qed

theorem act_needs_text_witness:
  "fetch_at 0 (one_turn textless_turn) = (Inr 0, one_turn textless_turn)
   \<and> 0 < length (heap (one_turn textless_turn))
   \<and> (heap (one_turn textless_turn) ! 0) ''labels'' = Some (VList [VStr ''good thanks''])
   \<and> (heap (one_turn textless_turn) ! 0) ''text'' = None
   \<and> act (fetch_at 0) pass_through (one_turn textless_turn) =
       (Inl (KeyError ''text''), \<lparr>heap = [textless_turn, textless_turn], task = ()\<rparr>)"
proof -
  have h1: "fetch_at 0 (one_turn textless_turn) = (Inr 0, one_turn textless_turn)"
    by (simp add: fetch_at_def)
  have h2: "0 < length (heap (one_turn textless_turn))"
    by (simp add: one_turn_def)
  have h3: "(heap (one_turn textless_turn) ! 0) ''labels'' = Some (VList [VStr ''good thanks''])"
    by (simp add: one_turn_def textless_turn_def)
  have h4: "(heap (one_turn textless_turn) ! 0) ''text'' = None"
    by (simp add: one_turn_def textless_turn_def)
  have "act (fetch_at 0) pass_through (one_turn textless_turn) =
          (Inl (KeyError ''text''), \<lparr>heap = [textless_turn, textless_turn], task = ()\<rparr>)"
    using act_needs_text[of "fetch_at 0" _ _ _ _ pass_through, OF h1 h2 h3 h4]
    by (simp add: one_turn_def)
  with h1 h2 h3 h4 show ?thesis by (intro conjI)
qed

subsection \<open>The terminal turn\<close>

text \<open>
  Claim C6. When the fetched turn has no \<^verbatim>\<open>text\<close> field, no \<^verbatim>\<open>labels\<close> field and
  \<^verbatim>\<open>episode_done\<close> true, \<^verbatim>\<open>act\<close> accepts it and changes no field: the copy it makes
  has the same fields as the fetched turn (forcing \<^verbatim>\<open>episode_done\<close> to true
  changes nothing), and \<^verbatim>\<open>act\<close> hands the fetched turn, as it was, to the inner
  teacher's \<^verbatim>\<open>process_action\<close> and returns its result. For an inner teacher whose
  \<^verbatim>\<open>process_action\<close> returns a turn with the fields of the action it is given (it
  only moves on to the next turn), \<^verbatim>\<open>act\<close> returns a turn, and that turn has
  exactly the fields of the fetched turn: none added, none removed, none
  modified, and \<^verbatim>\<open>episode_done\<close> true.
\<close>

theorem act_terminal_turn:
  assumes "get_orig_action s = (Inr a, s1)"
    and "a < length (heap s1)"
    and "(heap s1 ! a) ''text'' = None"
    and "(heap s1 ! a) ''labels'' = None"
    and "(heap s1 ! a) ''episode_done'' = Some (VBool True)"
    and "\<And>b t. b < length (heap t) \<Longrightarrow>
           \<exists>r t'. process_action b t = (Inr r, t') \<and> heap t' ! r = heap t ! b"
  shows "(\<exists>r s2. act get_orig_action process_action s = (Inr r, s2)
                 \<and> heap s2 ! r = heap s1 ! a
                 \<and> (heap s2 ! r) ''episode_done'' = Some (VBool True)
                 \<and> (heap s2 ! r) ''text'' = None
                 \<and> (heap s2 ! r) ''labels'' = None)
         \<and> act get_orig_action process_action s =
             process_action a (s1\<lparr>heap := heap s1 @ [heap s1 ! a]\<rparr>)
         \<and> rewrite_fields a (heap s1) = (Inr (length (heap s1)), heap s1 @ [heap s1 ! a])"
proof -
  let ?s2 = "s1\<lparr>heap := heap s1 @ [heap s1 ! a]\<rparr>"
  have rw: "rewrite_fields a (heap s1) = (Inr (length (heap s1)), heap s1 @ [heap s1 ! a])"
    using assms(2-5) by (simp add: rewrite_fields_unlabeled)
  with assms(1) have call: "act get_orig_action process_action s = process_action a ?s2"
    by (simp add: act_rewrite_succeeds)
  have valid: "a < length (heap ?s2)"
    using assms(2) by simp
  have handed: "heap ?s2 ! a = heap s1 ! a"
    using assms(2) by (simp add: nth_append)
  from assms(6)[OF valid] obtain r t'
    where res: "process_action a ?s2 = (Inr r, t')" and same: "heap t' ! r = heap ?s2 ! a"
    by blast
  from same handed have fields: "heap t' ! r = heap s1 ! a"
    by simp
  have "\<exists>r s2. act get_orig_action process_action s = (Inr r, s2)
                 \<and> heap s2 ! r = heap s1 ! a
                 \<and> (heap s2 ! r) ''episode_done'' = Some (VBool True)
                 \<and> (heap s2 ! r) ''text'' = None
                 \<and> (heap s2 ! r) ''labels'' = None"
    using call res fields assms(3-5) by auto
  with call rw show ?thesis by (intro conjI)
qed

theorem act_terminal_turn_witness:
  "fetch_at 0 (one_turn terminal_turn) = (Inr 0, one_turn terminal_turn)
   \<and> 0 < length (heap (one_turn terminal_turn))
   \<and> (heap (one_turn terminal_turn) ! 0) ''text'' = None
   \<and> (heap (one_turn terminal_turn) ! 0) ''labels'' = None
   \<and> (heap (one_turn terminal_turn) ! 0) ''episode_done'' = Some (VBool True)
   \<and> (\<forall>b t. pass_through b t = (Inr b, t))
   \<and> act (fetch_at 0) pass_through (one_turn terminal_turn) =
       (Inr 0, \<lparr>heap = [terminal_turn, terminal_turn], task = ()\<rparr>)
   \<and> heap (snd (act (fetch_at 0) pass_through (one_turn terminal_turn))) ! 0 = terminal_turn"
proof -
  have h1: "fetch_at 0 (one_turn terminal_turn) = (Inr 0, one_turn terminal_turn)"
    by (simp add: fetch_at_def)
  have h2: "0 < length (heap (one_turn terminal_turn))"
    by (simp add: one_turn_def)
  have h3: "(heap (one_turn terminal_turn) ! 0) ''text'' = None"
    and h4: "(heap (one_turn terminal_turn) ! 0) ''labels'' = None"
    and h5: "(heap (one_turn terminal_turn) ! 0) ''episode_done'' = Some (VBool True)"
    by (simp_all add: one_turn_def terminal_turn_def)
  have h6: "\<forall>b t. pass_through b t = (Inr b, t)"
    by (simp add: pass_through_def)
  then have h6': "\<exists>r t'. pass_through b t = (Inr r, t') \<and> heap t' ! r = heap t ! b"
    if "b < length (heap t)" for b t
    by simp
  have r: "act (fetch_at 0) pass_through (one_turn terminal_turn) =
          (Inr 0, \<lparr>heap = [terminal_turn, terminal_turn], task = ()\<rparr>)"
    using act_terminal_turn[of "fetch_at 0" _ _ _ pass_through, OF h1 h2 h3 h4 h5 h6']
    by (simp add: one_turn_def pass_through_def)
  then have "heap (snd (act (fetch_at 0) pass_through (one_turn terminal_turn))) ! 0
               = terminal_turn"
    by simp
  with h1 h2 h3 h4 h5 h6 r show ?thesis by (intro conjI)
qed

subsection \<open>The fetched turn is not mutated\<close>

text \<open>
  Claim C8. The field rewriting of \<^verbatim>\<open>act\<close> never changes the turn it was given:
  for every store and every valid reference, on every path (also the failing
  ones), the fetched turn has the same fields after the rewriting as before, and
  so has every other object that was in the store; the reference the rewriting
  returns is a new object, different from the fetched one.
\<close>

theorem rewrite_fields_keeps_original:
  assumes "a < length h"
  shows "snd (rewrite_fields a h) ! a = h ! a
         \<and> take (length h) (snd (rewrite_fields a h)) = h
         \<and> (\<forall>n. fst (rewrite_fields a h) = Inr n \<longrightarrow> n = length h \<and> n \<noteq> a)"
proof -
  have "take (length h) (snd (rewrite_fields a h)) ! a = h ! a"
    by (simp only: rewrite_fields_frame)
  then have "snd (rewrite_fields a h) ! a = h ! a"
    using assms by simp
  moreover have "\<forall>n. fst (rewrite_fields a h) = Inr n \<longrightarrow> n = length h \<and> n \<noteq> a"
    using assms rewrite_fields_ref by blast
  ultimately show ?thesis by (simp add: rewrite_fields_frame)
qed

theorem rewrite_fields_keeps_original_witness:
  "(0::nat) < length [example_turn]
   \<and> fst (rewrite_fields 0 [example_turn]) = Inr 1
   \<and> snd (rewrite_fields 0 [example_turn]) ! 0 = example_turn
   \<and> take 1 (snd (rewrite_fields 0 [example_turn])) = [example_turn]"
proof -
  have h: "(0::nat) < length [example_turn]"
    by simp
  have r: "fst (rewrite_fields 0 [example_turn]) = Inr 1"
    by (simp add: rewrite_fields_def deepcopy_def check_labels_def new_text_def getitem_def
          force_set_def example_turn_def)
  from rewrite_fields_keeps_original[OF h] h r show ?thesis
    by simp
qed

subsection \<open>The path of the labeled data and the Labeled teachers\<close>

lemma get_style_labeled_data_path_eq:
  assumes "opt ''datatype'' = Some (VStr dtype)"
    and "opt ''datapath'' = Some datapath"
    and "folder datapath = Inr data_folder"
  shows "get_style_labeled_data_path build folder opt base_task fs =
           (case build opt fs of
              Inl e \<Rightarrow> Inl e
            | Inr fs' \<Rightarrow>
                Inr (os_path_join data_folder
                       [base_task, takeWhile (\<lambda>c. c \<noteq> CHR '':'') dtype @ ''.txt''],
                     fs'))"
proof -
  obtain rest where "py_split CHR '':'' dtype =
      takeWhile (\<lambda>c. c \<noteq> CHR '':'') dtype # rest"
    using py_split_first by blast
  then show ?thesis using assms
    by (simp add: get_style_labeled_data_path_def getitem_def split: sum.splits)
qed

text \<open>Joining a folder that is not empty and does not end with a slash with
  two relative components puts one slash between them.\<close>

lemma os_path_join_relative:
  assumes "folder \<noteq> []" and "last folder \<noteq> CHR ''/''"
    and "b \<noteq> []" and "hd b \<noteq> CHR ''/''" and "last b \<noteq> CHR ''/''"
    and "c = [] \<or> hd c \<noteq> CHR ''/''"
  shows "os_path_join folder [b, c] = folder @ ''/'' @ b @ ''/'' @ c"
  using assms by (auto simp add: os_path_join_def join_step_def)

text \<open>
  Claim C7. For options with a string \<^verbatim>\<open>datatype\<close> and a \<^verbatim>\<open>datapath\<close> for which the
  folder function returns a folder, \<^verbatim>\<open>get_style_labeled_data_path\<close> runs the builder
  first (when the builder raises, no path is returned) and then returns the
  join of the folder, the base task and the file named by the part of the
  datatype before the first colon, with \<^verbatim>\<open>.txt\<close> appended, together with the file
  system as the builder left it. Each Labeled teacher hands this path, for its
  own base task, to the reader's constructor under the key
  \<^verbatim>\<open>'parlaidialogteacher_datafile'\<close>.
\<close>

theorem style_labeled_data_path:
  assumes "opt ''datatype'' = Some (VStr dtype)"
    and "opt ''datapath'' = Some datapath"
    and "folder datapath = Inr data_folder"
  shows "get_style_labeled_data_path build folder opt base_task fs =
           (case build opt fs of
              Inl e \<Rightarrow> Inl e
            | Inr fs' \<Rightarrow>
                Inr (os_path_join data_folder
                       [base_task, takeWhile (\<lambda>c. c \<noteq> CHR '':'') dtype @ ''.txt''],
                     fs'))
       \<and> LabeledBlendedSkillTalkTeacher_init build folder super_init opt shared fs =
           (case build opt fs of
              Inl e \<Rightarrow> (Inl e, opt)
            | Inr fs' \<Rightarrow>
                super_init
                  (opt(''parlaidialogteacher_datafile'' \<mapsto>
                     VStr (os_path_join data_folder
                             [''blended_skill_talk'',
                              takeWhile (\<lambda>c. c \<noteq> CHR '':'') dtype @ ''.txt''])))
                  shared fs')
       \<and> LabeledConvAI2PersonaTopicifierTeacher_init build folder super_init opt shared fs =
           (case build opt fs of
              Inl e \<Rightarrow> (Inl e, opt)
            | Inr fs' \<Rightarrow>
                super_init
                  (opt(''parlaidialogteacher_datafile'' \<mapsto>
                     VStr (os_path_join data_folder
                             [''blended_skill_talk:ConvAI2PersonaTopicifierTeacher'',
                              takeWhile (\<lambda>c. c \<noteq> CHR '':'') dtype @ ''.txt''])))
                  shared fs')
       \<and> LabeledEDPersonaTopicifierTeacher_init build folder super_init opt shared fs =
           (case build opt fs of
              Inl e \<Rightarrow> (Inl e, opt)
            | Inr fs' \<Rightarrow>
                super_init
                  (opt(''parlaidialogteacher_datafile'' \<mapsto>
                     VStr (os_path_join data_folder
                             [''blended_skill_talk:EDPersonaTopicifierTeacher'',
                              takeWhile (\<lambda>c. c \<noteq> CHR '':'') dtype @ ''.txt''])))
                  shared fs')
       \<and> LabeledWoWPersonaTopicifierTeacher_init build folder super_init opt shared fs =
           (case build opt fs of
              Inl e \<Rightarrow> (Inl e, opt)
            | Inr fs' \<Rightarrow>
                super_init
                  (opt(''parlaidialogteacher_datafile'' \<mapsto>
                     VStr (os_path_join data_folder
                             [''blended_skill_talk:WoWPersonaTopicifierTeacher'',
                              takeWhile (\<lambda>c. c \<noteq> CHR '':'') dtype @ ''.txt''])))
                  shared fs')"
proof -
  note path = get_style_labeled_data_path_eq[of opt dtype datapath folder data_folder, OF assms]
  have bst: "LabeledBlendedSkillTalkTeacher_init build folder super_init opt shared fs =
           (case build opt fs of
              Inl e \<Rightarrow> (Inl e, opt)
            | Inr fs' \<Rightarrow>
                super_init
                  (opt(''parlaidialogteacher_datafile'' \<mapsto>
                     VStr (os_path_join data_folder
                             [''blended_skill_talk'',
                              takeWhile (\<lambda>c. c \<noteq> CHR '':'') dtype @ ''.txt''])))
                  shared fs')"
    by (simp add: LabeledBlendedSkillTalkTeacher_init_def path split: sum.splits)
  have convai2: "LabeledConvAI2PersonaTopicifierTeacher_init build folder super_init opt shared fs =
           (case build opt fs of
              Inl e \<Rightarrow> (Inl e, opt)
            | Inr fs' \<Rightarrow>
                super_init
                  (opt(''parlaidialogteacher_datafile'' \<mapsto>
                     VStr (os_path_join data_folder
                             [''blended_skill_talk:ConvAI2PersonaTopicifierTeacher'',
                              takeWhile (\<lambda>c. c \<noteq> CHR '':'') dtype @ ''.txt''])))
                  shared fs')"
    by (simp add: LabeledConvAI2PersonaTopicifierTeacher_init_def path split: sum.splits)
  have ed: "LabeledEDPersonaTopicifierTeacher_init build folder super_init opt shared fs =
           (case build opt fs of
              Inl e \<Rightarrow> (Inl e, opt)
            | Inr fs' \<Rightarrow>
                super_init
                  (opt(''parlaidialogteacher_datafile'' \<mapsto>
                     VStr (os_path_join data_folder
                             [''blended_skill_talk:EDPersonaTopicifierTeacher'',
                              takeWhile (\<lambda>c. c \<noteq> CHR '':'') dtype @ ''.txt''])))
                  shared fs')"
    by (simp add: LabeledEDPersonaTopicifierTeacher_init_def path split: sum.splits)
  have wow: "LabeledWoWPersonaTopicifierTeacher_init build folder super_init opt shared fs =
           (case build opt fs of
              Inl e \<Rightarrow> (Inl e, opt)
            | Inr fs' \<Rightarrow>
                super_init
                  (opt(''parlaidialogteacher_datafile'' \<mapsto>
                     VStr (os_path_join data_folder
                             [''blended_skill_talk:WoWPersonaTopicifierTeacher'',
                              takeWhile (\<lambda>c. c \<noteq> CHR '':'') dtype @ ''.txt''])))
                  shared fs')"
    by (simp add: LabeledWoWPersonaTopicifierTeacher_init_def path split: sum.splits)
  from path bst convai2 ed wow show ?thesis by (intro conjI)
qed

theorem style_labeled_data_path_witness:
  "example_opt ''datatype'' = Some (VStr ''train:stream'')
   \<and> example_opt ''datapath'' = Some (VStr ''/data'')
   \<and> folder_below (VStr ''/data'') = Inr ''/data/style_gen/labeled_datasets''
   \<and> get_style_labeled_data_path count_build folder_below example_opt ''blended_skill_talk'' 0 =
       Inr (''/data/style_gen/labeled_datasets/blended_skill_talk/train.txt'', 1)
   \<and> LabeledWoWPersonaTopicifierTeacher_init count_build folder_below reader_init example_opt () 0 =
       (Inr (Some (VStr ''/data/style_gen/labeled_datasets/blended_skill_talk:WoWPersonaTopicifierTeacher/train.txt''),
             Some (VStr ''train:stream''), 1),
        example_opt(''parlaidialogteacher_datafile'' \<mapsto>
          VStr ''/data/style_gen/labeled_datasets/blended_skill_talk:WoWPersonaTopicifierTeacher/train.txt''))"
proof -
  have h1: "example_opt ''datatype'' = Some (VStr ''train:stream'')"
    and h2: "example_opt ''datapath'' = Some (VStr ''/data'')"
    by (simp_all add: example_opt_def)
  have h3: "folder_below (VStr ''/data'') = Inr ''/data/style_gen/labeled_datasets''"
    by (simp add: os_path_join_def join_step_def)
  note inst = style_labeled_data_path[where opt = example_opt and dtype = "''train:stream''"
      and datapath = "VStr ''/data''" and folder = folder_below
      and data_folder = "''/data/style_gen/labeled_datasets''"
      and build = count_build and fs = 0 and super_init = reader_init and shared = "()"
      and base_task = "''blended_skill_talk''", OF h1 h2 h3]
  have p: "get_style_labeled_data_path count_build folder_below example_opt ''blended_skill_talk'' 0 =
       Inr (''/data/style_gen/labeled_datasets/blended_skill_talk/train.txt'', 1)"
    using inst by (simp add: count_build_def os_path_join_def join_step_def)
  have q: "LabeledWoWPersonaTopicifierTeacher_init count_build folder_below reader_init example_opt () 0 =
       (Inr (Some (VStr ''/data/style_gen/labeled_datasets/blended_skill_talk:WoWPersonaTopicifierTeacher/train.txt''),
             Some (VStr ''train:stream''), 1),
        example_opt(''parlaidialogteacher_datafile'' \<mapsto>
          VStr ''/data/style_gen/labeled_datasets/blended_skill_talk:WoWPersonaTopicifierTeacher/train.txt''))"
    using inst
    by (simp add: count_build_def reader_init_def os_path_join_def join_step_def example_opt_def)
  from h1 h2 h3 p q show ?thesis by (intro conjI)
qed

text \<open>When the path cannot be computed, the caller's options are as they were.\<close>

lemma labeled_teachers_keep_opt_on_failure:
  shows "get_style_labeled_data_path build folder opt ''blended_skill_talk'' fs = Inl e \<Longrightarrow>
           LabeledBlendedSkillTalkTeacher_init build folder super_init opt shared fs
             = (Inl e, opt)"
    and "get_style_labeled_data_path build folder opt
           ''blended_skill_talk:ConvAI2PersonaTopicifierTeacher'' fs = Inl e \<Longrightarrow>
           LabeledConvAI2PersonaTopicifierTeacher_init build folder super_init opt shared fs
             = (Inl e, opt)"
    and "get_style_labeled_data_path build folder opt
           ''blended_skill_talk:EDPersonaTopicifierTeacher'' fs = Inl e \<Longrightarrow>
           LabeledEDPersonaTopicifierTeacher_init build folder super_init opt shared fs
             = (Inl e, opt)"
    and "get_style_labeled_data_path build folder opt
           ''blended_skill_talk:WoWPersonaTopicifierTeacher'' fs = Inl e \<Longrightarrow>
           LabeledWoWPersonaTopicifierTeacher_init build folder super_init opt shared fs
             = (Inl e, opt)"
  by (simp_all add: LabeledBlendedSkillTalkTeacher_init_def
        LabeledConvAI2PersonaTopicifierTeacher_init_def
        LabeledEDPersonaTopicifierTeacher_init_def
        LabeledWoWPersonaTopicifierTeacher_init_def)

text \<open>
  Claim C9. Whenever the path of its base task can be computed, the constructor
  of each Labeled teacher changes the caller's options before it calls the
  reader's constructor: the reader runs on the caller's options in which
  \<^verbatim>\<open>'parlaidialogteacher_datafile'\<close> is set to that path and every other key has the
  value it had (and on the file system as the builder left it), and the caller's
  options at the end of the constructor are the options as the reader leaves
  them. With a reader that leaves the options as they are, the caller's options
  after the constructor, whether the reader returned or raised, have the path
  under \<^verbatim>\<open>'parlaidialogteacher_datafile'\<close> and every other key as before.
\<close>

theorem labeled_teachers_set_datafile:
  assumes "get_style_labeled_data_path build folder opt ''blended_skill_talk'' fs
             = Inr (p1, fs1)"
    and "get_style_labeled_data_path build folder opt
             ''blended_skill_talk:ConvAI2PersonaTopicifierTeacher'' fs = Inr (p2, fs2)"
    and "get_style_labeled_data_path build folder opt
             ''blended_skill_talk:EDPersonaTopicifierTeacher'' fs = Inr (p3, fs3)"
    and "get_style_labeled_data_path build folder opt
             ''blended_skill_talk:WoWPersonaTopicifierTeacher'' fs = Inr (p4, fs4)"
  shows "((\<exists>opt'. LabeledBlendedSkillTalkTeacher_init build folder super_init opt shared fs
                   = super_init opt' shared fs1
                 \<and> opt' ''parlaidialogteacher_datafile'' = Some (VStr p1)
                 \<and> (\<forall>k. k \<noteq> ''parlaidialogteacher_datafile'' \<longrightarrow> opt' k = opt k))
          \<and> ((\<forall>opts f. snd (super_init opts shared f) = opts) \<longrightarrow>
                snd (LabeledBlendedSkillTalkTeacher_init build folder super_init opt shared fs)
                  ''parlaidialogteacher_datafile'' = Some (VStr p1)
              \<and> (\<forall>k. k \<noteq> ''parlaidialogteacher_datafile'' \<longrightarrow>
                    snd (LabeledBlendedSkillTalkTeacher_init build folder super_init opt shared fs) k
                      = opt k)))
       \<and> ((\<exists>opt'. LabeledConvAI2PersonaTopicifierTeacher_init build folder super_init opt shared fs
                   = super_init opt' shared fs2
                 \<and> opt' ''parlaidialogteacher_datafile'' = Some (VStr p2)
                 \<and> (\<forall>k. k \<noteq> ''parlaidialogteacher_datafile'' \<longrightarrow> opt' k = opt k))
          \<and> ((\<forall>opts f. snd (super_init opts shared f) = opts) \<longrightarrow>
                snd (LabeledConvAI2PersonaTopicifierTeacher_init build folder super_init opt shared fs)
                  ''parlaidialogteacher_datafile'' = Some (VStr p2)
              \<and> (\<forall>k. k \<noteq> ''parlaidialogteacher_datafile'' \<longrightarrow>
                    snd (LabeledConvAI2PersonaTopicifierTeacher_init build folder super_init opt shared fs) k
                      = opt k)))
       \<and> ((\<exists>opt'. LabeledEDPersonaTopicifierTeacher_init build folder super_init opt shared fs
                   = super_init opt' shared fs3
                 \<and> opt' ''parlaidialogteacher_datafile'' = Some (VStr p3)
                 \<and> (\<forall>k. k \<noteq> ''parlaidialogteacher_datafile'' \<longrightarrow> opt' k = opt k))
          \<and> ((\<forall>opts f. snd (super_init opts shared f) = opts) \<longrightarrow>
                snd (LabeledEDPersonaTopicifierTeacher_init build folder super_init opt shared fs)
                  ''parlaidialogteacher_datafile'' = Some (VStr p3)
              \<and> (\<forall>k. k \<noteq> ''parlaidialogteacher_datafile'' \<longrightarrow>
                    snd (LabeledEDPersonaTopicifierTeacher_init build folder super_init opt shared fs) k
                      = opt k)))
       \<and> ((\<exists>opt'. LabeledWoWPersonaTopicifierTeacher_init build folder super_init opt shared fs
                   = super_init opt' shared fs4
                 \<and> opt' ''parlaidialogteacher_datafile'' = Some (VStr p4)
                 \<and> (\<forall>k. k \<noteq> ''parlaidialogteacher_datafile'' \<longrightarrow> opt' k = opt k))
          \<and> ((\<forall>opts f. snd (super_init opts shared f) = opts) \<longrightarrow>
                snd (LabeledWoWPersonaTopicifierTeacher_init build folder super_init opt shared fs)
                  ''parlaidialogteacher_datafile'' = Some (VStr p4)
              \<and> (\<forall>k. k \<noteq> ''parlaidialogteacher_datafile'' \<longrightarrow>
                    snd (LabeledWoWPersonaTopicifierTeacher_init build folder super_init opt shared fs) k
                      = opt k)))"
proof -
  have bst: "LabeledBlendedSkillTalkTeacher_init build folder super_init opt shared fs
               = super_init (opt(''parlaidialogteacher_datafile'' \<mapsto> VStr p1)) shared fs1"
    using assms(1) by (simp add: LabeledBlendedSkillTalkTeacher_init_def)
  have convai2: "LabeledConvAI2PersonaTopicifierTeacher_init build folder super_init opt shared fs
               = super_init (opt(''parlaidialogteacher_datafile'' \<mapsto> VStr p2)) shared fs2"
    using assms(2) by (simp add: LabeledConvAI2PersonaTopicifierTeacher_init_def)
  have ed: "LabeledEDPersonaTopicifierTeacher_init build folder super_init opt shared fs
               = super_init (opt(''parlaidialogteacher_datafile'' \<mapsto> VStr p3)) shared fs3"
    using assms(3) by (simp add: LabeledEDPersonaTopicifierTeacher_init_def)
  have wow: "LabeledWoWPersonaTopicifierTeacher_init build folder super_init opt shared fs
               = super_init (opt(''parlaidialogteacher_datafile'' \<mapsto> VStr p4)) shared fs4"
    using assms(4) by (simp add: LabeledWoWPersonaTopicifierTeacher_init_def)
  have step: "(\<exists>opt'. r = super_init opt' shared f
                 \<and> opt' ''parlaidialogteacher_datafile'' = Some (VStr p)
                 \<and> (\<forall>k. k \<noteq> ''parlaidialogteacher_datafile'' \<longrightarrow> opt' k = opt k))
          \<and> ((\<forall>opts f. snd (super_init opts shared f) = opts) \<longrightarrow>
                snd r ''parlaidialogteacher_datafile'' = Some (VStr p)
              \<and> (\<forall>k. k \<noteq> ''parlaidialogteacher_datafile'' \<longrightarrow> snd r k = opt k))"
    if "r = super_init (opt(''parlaidialogteacher_datafile'' \<mapsto> VStr p)) shared f"
    for r p f
  proof (intro conjI impI)
    show "\<exists>opt'. r = super_init opt' shared f
                 \<and> opt' ''parlaidialogteacher_datafile'' = Some (VStr p)
                 \<and> (\<forall>k. k \<noteq> ''parlaidialogteacher_datafile'' \<longrightarrow> opt' k = opt k)"
      using that
      by (intro exI[of _ "opt(''parlaidialogteacher_datafile'' \<mapsto> VStr p)"]) simp
  next
    assume keeps: "\<forall>opts f. snd (super_init opts shared f) = opts"
    then have "snd r = opt(''parlaidialogteacher_datafile'' \<mapsto> VStr p)"
      using that by simp
    then show "snd r ''parlaidialogteacher_datafile'' = Some (VStr p)"
      and "\<forall>k. k \<noteq> ''parlaidialogteacher_datafile'' \<longrightarrow> snd r k = opt k"
      by simp_all
  qed
  show ?thesis
    by (rule conjI[OF step[OF bst] conjI[OF step[OF convai2] conjI[OF step[OF ed] step[OF wow]]]])
qed

theorem labeled_teachers_set_datafile_witness:
  "get_style_labeled_data_path count_build folder_below example_opt ''blended_skill_talk'' 0
     = Inr (''/data/style_gen/labeled_datasets/blended_skill_talk/train.txt'', 1)
   \<and> get_style_labeled_data_path count_build folder_below example_opt
       ''blended_skill_talk:ConvAI2PersonaTopicifierTeacher'' 0
     = Inr (''/data/style_gen/labeled_datasets/blended_skill_talk:ConvAI2PersonaTopicifierTeacher/train.txt'', 1)
   \<and> get_style_labeled_data_path count_build folder_below example_opt
       ''blended_skill_talk:EDPersonaTopicifierTeacher'' 0
     = Inr (''/data/style_gen/labeled_datasets/blended_skill_talk:EDPersonaTopicifierTeacher/train.txt'', 1)
   \<and> get_style_labeled_data_path count_build folder_below example_opt
       ''blended_skill_talk:WoWPersonaTopicifierTeacher'' 0
     = Inr (''/data/style_gen/labeled_datasets/blended_skill_talk:WoWPersonaTopicifierTeacher/train.txt'', 1)
   \<and> (\<forall>opts f. snd (failing_reader_init opts () f) = opts)
   \<and> example_opt ''parlaidialogteacher_datafile'' = None
   \<and> fst (LabeledBlendedSkillTalkTeacher_init count_build folder_below failing_reader_init
            example_opt () 0) = Inl (BuildError ''no data file'')
   \<and> snd (LabeledBlendedSkillTalkTeacher_init count_build folder_below failing_reader_init
            example_opt () 0) ''parlaidialogteacher_datafile''
       = Some (VStr ''/data/style_gen/labeled_datasets/blended_skill_talk/train.txt'')
   \<and> snd (LabeledBlendedSkillTalkTeacher_init count_build folder_below failing_reader_init
            example_opt () 0) ''datatype''
       = Some (VStr ''train:stream'')"
proof -
  have d1: "example_opt ''datatype'' = Some (VStr ''train:stream'')"
    and d2: "example_opt ''datapath'' = Some (VStr ''/data'')"
    and d0: "example_opt ''parlaidialogteacher_datafile'' = None"
    by (simp_all add: example_opt_def)
  have d3: "folder_below (VStr ''/data'') = Inr ''/data/style_gen/labeled_datasets''"
    by (simp add: os_path_join_def join_step_def)
  note path = get_style_labeled_data_path_eq[of example_opt "''train:stream''" "VStr ''/data''"
      folder_below "''/data/style_gen/labeled_datasets''" count_build _ 0, OF d1 d2 d3]
  have h1: "get_style_labeled_data_path count_build folder_below example_opt
              ''blended_skill_talk'' 0
     = Inr (''/data/style_gen/labeled_datasets/blended_skill_talk/train.txt'', 1)"
    by (simp add: path count_build_def os_path_join_def join_step_def)
  have h2: "get_style_labeled_data_path count_build folder_below example_opt
       ''blended_skill_talk:ConvAI2PersonaTopicifierTeacher'' 0
     = Inr (''/data/style_gen/labeled_datasets/blended_skill_talk:ConvAI2PersonaTopicifierTeacher/train.txt'', 1)"
    by (simp add: path count_build_def os_path_join_def join_step_def)
  have h3: "get_style_labeled_data_path count_build folder_below example_opt
       ''blended_skill_talk:EDPersonaTopicifierTeacher'' 0
     = Inr (''/data/style_gen/labeled_datasets/blended_skill_talk:EDPersonaTopicifierTeacher/train.txt'', 1)"
    by (simp add: path count_build_def os_path_join_def join_step_def)
  have h4: "get_style_labeled_data_path count_build folder_below example_opt
       ''blended_skill_talk:WoWPersonaTopicifierTeacher'' 0
     = Inr (''/data/style_gen/labeled_datasets/blended_skill_talk:WoWPersonaTopicifierTeacher/train.txt'', 1)"
    by (simp add: path count_build_def os_path_join_def join_step_def)
  have keeps: "\<forall>opts f. snd (failing_reader_init opts () f) = opts"
    by (simp add: failing_reader_init_def)
  note inst = labeled_teachers_set_datafile[OF h1 h2 h3 h4, of failing_reader_init "()"]
  note bst = inst[THEN conjunct1]
  have raised: "fst (LabeledBlendedSkillTalkTeacher_init count_build folder_below
             failing_reader_init example_opt () 0) = Inl (BuildError ''no data file'')"
    using bst[THEN conjunct1] by (clarsimp simp add: failing_reader_init_def)
  note after = bst[THEN conjunct2, THEN mp, OF keeps]
  have datafile: "snd (LabeledBlendedSkillTalkTeacher_init count_build folder_below
             failing_reader_init example_opt () 0) ''parlaidialogteacher_datafile''
       = Some (VStr ''/data/style_gen/labeled_datasets/blended_skill_talk/train.txt'')"
    by (rule after[THEN conjunct1])
  have "''datatype'' \<noteq> ''parlaidialogteacher_datafile''"
    by simp
  with after[THEN conjunct2, THEN spec, of "''datatype''"] d1
  have dtype: "snd (LabeledBlendedSkillTalkTeacher_init count_build folder_below
             failing_reader_init example_opt () 0) ''datatype'' = Some (VStr ''train:stream'')"
    by simp
  from h1 h2 h3 h4 keeps d0 raised datafile dtype show ?thesis by (intro conjI)
qed

end
